theory Spec2Isabelle
  imports Complex_Main "HOL-Library.Code_Target_Numeral"
begin

section \<open>Numbers\<close>

text \<open>
  A number of the program is an IEEE 754 double: a finite value, one of the two
  infinities, or NaN. A finite value is kept as the real it denotes. The two zeros are one
  value here: the program never divides by a variable and prints both zeros alike, so the
  sign of a zero does not reach any output.
\<close>

datatype number = NaN | PosInfinity | NegInfinity | Finite real

text \<open>
  \<open>len b n\<close> is the number of digits of \<open>n\<close> in base \<open>b\<close>, and \<open>floor_log b x\<close> the
  integer \<open>e\<close> with \<open>b^e \<le> x < b^(e+1)\<close> for a positive \<open>x\<close>; \<open>scale b t\<close> is \<open>b^t\<close> for an
  integer \<open>t\<close> of either sign.
\<close>

fun len :: "nat \<Rightarrow> nat \<Rightarrow> nat" where
  "len b n = (if n = 0 \<or> b < 2 then 0 else Suc (len b (n div b)))"

declare len.simps [simp del]

definition floor_log :: "nat \<Rightarrow> real \<Rightarrow> int" where
  "floor_log b x =
     (if 1 \<le> x then int (len b (nat \<lfloor>x\<rfloor>)) - 1
      else - int (len b (nat \<lceil>1 / x\<rceil> - 1)))"

definition scale :: "nat \<Rightarrow> int \<Rightarrow> real" where
  "scale b t = (if 0 \<le> t then real b ^ nat t else 1 / real b ^ nat (- t))"

text \<open>The nearest integer, the even one of the two on a tie.\<close>

definition round_even :: "real \<Rightarrow> int" where
  "round_even q =
     (let f = \<lfloor>q\<rfloor>; d = q - of_int f
      in if d < 1 / 2 then f else if 1 / 2 < d then f + 1 else if even f then f else f + 1)"

text \<open>
  Rounding a real to the nearest double, ties to even: the value is a multiple of
  \<open>2^t\<close> with a significand of 53 bits, \<open>t\<close> not below the exponent of the subnormal
  numbers, and a result of \<open>2^1024\<close> or more is an infinity.
\<close>

definition fl :: "real \<Rightarrow> number" where
  "fl x =
     (if x = 0 then Finite 0
      else
        let a = \<bar>x\<bar>;
            e = floor_log 2 a;
            t = max (e - 52) (- 1074);
            r = of_int (round_even (a / scale 2 t)) * scale 2 t
        in if 2 ^ 1024 \<le> r then (if x < 0 then NegInfinity else PosInfinity)
           else Finite (if x < 0 then - r else r))"

subsection \<open>Arithmetic and comparison\<close>

fun fadd :: "number \<Rightarrow> number \<Rightarrow> number" where
  "fadd NaN y = NaN"
| "fadd x NaN = NaN"
| "fadd (Finite a) (Finite b) = fl (a + b)"
| "fadd (Finite a) y = y"
| "fadd x (Finite b) = x"
| "fadd x y = (if x = y then x else NaN)"

fun fmul :: "number \<Rightarrow> number \<Rightarrow> number" where
  "fmul NaN y = NaN"
| "fmul x NaN = NaN"
| "fmul (Finite a) (Finite b) = fl (a * b)"
| "fmul (Finite a) y =
     (if a = 0 then NaN else if (0 < a) = (y = PosInfinity) then PosInfinity else NegInfinity)"
| "fmul x (Finite b) =
     (if b = 0 then NaN else if (0 < b) = (x = PosInfinity) then PosInfinity else NegInfinity)"
| "fmul x y = (if x = y then PosInfinity else NegInfinity)"

text \<open>
  Division; the divisors of the program are the literals 2, 3 and 30. A zero divisor is
  taken as the positive zero.
\<close>

fun fdiv :: "number \<Rightarrow> number \<Rightarrow> number" where
  "fdiv NaN y = NaN"
| "fdiv x NaN = NaN"
| "fdiv (Finite a) (Finite b) =
     (if b = 0 then (if a = 0 then NaN else if 0 < a then PosInfinity else NegInfinity)
      else fl (a / b))"
| "fdiv (Finite a) y = Finite 0"
| "fdiv x (Finite b) = (if (0 \<le> b) = (x = PosInfinity) then PosInfinity else NegInfinity)"
| "fdiv x y = NaN"

text \<open>\<open>x < y\<close>; a comparison with NaN is false.\<close>

fun flt :: "number \<Rightarrow> number \<Rightarrow> bool" where
  "flt NaN y = False"
| "flt x NaN = False"
| "flt (Finite a) (Finite b) = (a < b)"
| "flt NegInfinity y = (y \<noteq> NegInfinity)"
| "flt x PosInfinity = (x \<noteq> PosInfinity)"
| "flt x y = False"

definition fle :: "number \<Rightarrow> number \<Rightarrow> bool" where
  "fle x y \<longleftrightarrow> flt x y \<or> (x = y \<and> x \<noteq> NaN)"

text \<open>\<^verbatim>\<open>Math.max\<close> of two numbers, and the truth value of a number in a condition.\<close>

fun fmax :: "number \<Rightarrow> number \<Rightarrow> number" where
  "fmax NaN y = NaN"
| "fmax x NaN = NaN"
| "fmax x y = (if flt x y then y else x)"

definition truthy :: "number \<Rightarrow> bool" where
  "truthy x \<longleftrightarrow> x \<noteq> NaN \<and> x \<noteq> Finite 0"

text \<open>\<^verbatim>\<open>Math.PI\<close>, the double nearest to \<open>\<pi>\<close>.\<close>

definition Math_PI :: number where
  "Math_PI = Finite (884279719003555 / 281474976710656)"

subsection \<open>The text of a number\<close>

definition digit :: "nat \<Rightarrow> char" where
  "digit n = ''0123456789'' ! n"

fun digits :: "nat \<Rightarrow> string" where
  "digits n = (if n < 10 then [digit n] else digits (n div 10) @ [digit (n mod 10)])"

declare digits.simps [simp del]

text \<open>
  The default conversion of a number to text prints the shortest decimal that reads back
  as the same double. For a positive double \<open>a\<close> it takes integers \<open>n\<close>, \<open>k\<close> and \<open>s\<close> with
  \<open>s\<close> of \<open>k\<close> digits and \<open>s * 10^(n - k)\<close> rounding to \<open>a\<close>, \<open>k\<close> as small as possible and then
  \<open>s * 10^(n - k)\<close> as close to \<open>a\<close> as possible. \<open>find_digits\<close> tries \<open>k = 1, 2, \<dots>\<close> in the
  decade of \<open>a\<close>; only the two integers next to \<open>a / 10^(n - k)\<close> can be the closest.
  Seventeen digits always suffice for a double.
\<close>

definition roundtrips :: "real \<Rightarrow> int \<Rightarrow> int \<Rightarrow> int \<Rightarrow> bool" where
  "roundtrips a n k s \<longleftrightarrow> fl (of_int s * scale 10 (n - k)) = Finite a"

function find_digits :: "real \<Rightarrow> int \<Rightarrow> int \<Rightarrow> int \<times> int" where
  "find_digits a n k =
     (let q = a / scale 10 (n - k);
          lo = \<lfloor>q\<rfloor>;
          hi = lo + 1;
          lo_ok = roundtrips a n k lo;
          hi_ok = (of_int hi < scale 10 k \<and> roundtrips a n k hi)
      in if lo_ok \<and> hi_ok then
           (k, if q - of_int lo < of_int hi - q then lo
               else if of_int hi - q < q - of_int lo then hi
               else if even lo then lo else hi)
         else if lo_ok then (k, lo)
         else if hi_ok then (k, hi)
         else if 17 \<le> k then (k, lo)
         else find_digits a n (k + 1))"
  by pat_completeness auto
termination
  by (relation "measure (\<lambda>(a, n, k). nat (17 - k))") auto

declare find_digits.simps [simp del]

text \<open>
  The triple \<open>(n, k, s)\<close>. A double that is the rounding of the power of ten above it is
  that power: one digit, in the next decade.
\<close>

definition shortest :: "real \<Rightarrow> int \<times> int \<times> int" where
  "shortest a =
     (let n = floor_log 10 a + 1
      in if fl (scale 10 n) = Finite a then (n + 1, 1, 1)
         else (n, find_digits a n 1))"

definition zeros :: "nat \<Rightarrow> string" where
  "zeros j = replicate j (CHR ''0'')"

definition exponent :: "int \<Rightarrow> string" where
  "exponent e = (if e < 0 then ''e-'' else ''e+'') @ digits (nat \<bar>e\<bar>)"

definition positiveToString :: "real \<Rightarrow> string" where
  "positiveToString a =
     (case shortest a of (n, k, s) \<Rightarrow>
        let ds = digits (nat s)
        in if k \<le> n \<and> n \<le> 21 then ds @ zeros (nat (n - k))
           else if 0 < n \<and> n \<le> 21 then take (nat n) ds @ ''.'' @ drop (nat n) ds
           else if - 6 < n \<and> n \<le> 0 then ''0.'' @ zeros (nat (- n)) @ ds
           else if k = 1 then ds @ exponent (n - 1)
           else take 1 ds @ ''.'' @ drop 1 ds @ exponent (n - 1))"

definition numberToString :: "number \<Rightarrow> string" where
  "numberToString x =
     (case x of
        NaN \<Rightarrow> ''NaN''
      | PosInfinity \<Rightarrow> ''Infinity''
      | NegInfinity \<Rightarrow> ''-Infinity''
      | Finite r \<Rightarrow>
          if r = 0 then ''0''
          else if r < 0 then ''-'' @ positiveToString (- r)
          else positiveToString r)"

text \<open>
  \<^verbatim>\<open>x.toFixed(f)\<close>: a number that is not finite prints as by the default conversion.
  Otherwise the sign is split off, the integer \<open>n\<close> nearest to \<open>x * 10^f\<close> is taken (the
  larger one on a tie), its digits are padded with zeros to \<open>f + 1\<close> places and the point
  is put before the last \<open>f\<close> of them. The program calls it with \<open>f = 1\<close> only.
\<close>

definition toFixed :: "nat \<Rightarrow> number \<Rightarrow> string" where
  "toFixed f v =
     (case v of
        Finite x0 \<Rightarrow>
          (let s = (if x0 < 0 then ''-'' else '''');
               x = (if x0 < 0 then - x0 else x0)
           in if x \<ge> 10 ^ 21 then s @ numberToString (Finite x)
              else
                let n = nat \<lfloor>x * 10 ^ f + 1 / 2\<rfloor>;
                    m = digits n;
                    m = (if f \<noteq> 0 \<and> length m \<le> f
                         then replicate (f + 1 - length m) (CHR ''0'') @ m else m);
                    k = length m
                in if f \<noteq> 0 then s @ take (k - f) m @ ''.'' @ drop (k - f) m else s @ m)
      | _ \<Rightarrow> numberToString v)"

section \<open>Geometry\<close>

text \<open>The shape descriptor \<^verbatim>\<open>{ w, h, type }\<close>; the tag is a string, as in the presets.\<close>

record dims =
  w :: number
  h :: number
  type :: string

definition computeVolumeMeters3 :: "dims \<Rightarrow> number" where
  "computeVolumeMeters3 d =
     (let w' = w d; h' = h d in
      if type d = ''cylinder'' then
        (let r = fdiv w' (Finite 2) in fmul (fmul (fmul Math_PI r) r) h')
      else if type d = ''sphere'' then
        (let r = fdiv w' (Finite 2)
         in fmul (fmul (fmul (fmul (fdiv (Finite 4) (Finite 3)) Math_PI) r) r) r)
      else if type d = ''ellipsoid'' then
        (let a = fdiv w' (Finite 2); b = fdiv w' (Finite 2); c = fdiv h' (Finite 2)
         in fmul (fmul (fmul (fmul (fdiv (Finite 4) (Finite 3)) Math_PI) a) b) c)
      else if type d = ''box'' then fmul (fmul w' h') (Finite (5 / 2))
      else Finite 0)"

definition computeFloorArea :: "dims \<Rightarrow> number" where
  "computeFloorArea d =
     (if type d = ''cylinder'' then
        fmul (fmul Math_PI (fdiv (w d) (Finite 2))) (fdiv (w d) (Finite 2))
      else if type d = ''sphere'' then
        fmul (fmul Math_PI (fdiv (w d) (Finite 2))) (fdiv (w d) (Finite 2))
      else if type d = ''ellipsoid'' then
        fmul (fmul Math_PI (fdiv (w d) (Finite 2))) (fdiv (h d) (Finite 2))
      else if type d = ''box'' then fmul (w d) (h d)
      else Finite 0)"

section \<open>The component state and the rule engine\<close>

record zone =
  zone_id :: number
  name :: string
  area_m2 :: number

text \<open>
  The state of the component that the computations read. \<open>evaluateZones\<close> is a closure
  over it: it reads \<open>crew\<close>, \<open>missionDays\<close> and the memoised \<open>floorArea\<close>.
\<close>

record habitat =
  shapeName :: string
  dimensions :: dims
  crew :: number
  missionDays :: number
  zones :: "zone list"

definition volume :: "habitat \<Rightarrow> number" where
  "volume c = computeVolumeMeters3 (dimensions c)"

definition floorArea :: "habitat \<Rightarrow> number" where
  "floorArea c = computeFloorArea (dimensions c)"

text \<open>
  A rule entry is an object with up to three numeric properties; an absent property reads
  as \<^verbatim>\<open>undefined\<close>, here \<open>None\<close>. The table is in the order of the object literal, which
  is the order in which \<^verbatim>\<open>Object.entries\<close> lists its keys.
\<close>

record rule =
  min_per_crew :: "number option"
  min_per_crew_per_30days :: "number option"
  fixed_min :: "number option"

definition rules :: "(string \<times> rule) list" where
  "rules =
    [(''Sleep'',
        \<lparr>min_per_crew = Some (Finite 4), min_per_crew_per_30days = None, fixed_min = None\<rparr>),
     (''Recreation'',
        \<lparr>min_per_crew = Some (Finite 2), min_per_crew_per_30days = None, fixed_min = None\<rparr>),
     (''Exercise'',
        \<lparr>min_per_crew = Some (Finite 3), min_per_crew_per_30days = None, fixed_min = None\<rparr>),
     (''Hygiene'',
        \<lparr>min_per_crew = None, min_per_crew_per_30days = None, fixed_min = Some (Finite 3)\<rparr>),
     (''ECLSS'',
        \<lparr>min_per_crew = None, min_per_crew_per_30days = None, fixed_min = Some (Finite 4)\<rparr>),
     (''Stowage'',
        \<lparr>min_per_crew = None, min_per_crew_per_30days = Some (Finite (1 / 2)),
         fixed_min = None\<rparr>)]"

record check =
  ok :: bool
  msg :: string

text \<open>
  The lookup object: one forward pass over the zones, each assignment replacing what the
  name held before. The keys read back are the six rule names, none of which is a
  property that an empty object inherits.
\<close>

definition zoneMap :: "zone list \<Rightarrow> (string \<rightharpoonup> zone)" where
  "zoneMap zonesArr = foldl (\<lambda>m z. m(name z \<mapsto> z)) Map.empty zonesArr"

text \<open>
  The three guarded assignments to \<^verbatim>\<open>required\<close>, in the order of the source. A guard
  holds when the property is present and its number is true in a condition. Every
  product and quotient is rounded, in the order in which the source brackets them.
\<close>

definition required_area :: "habitat \<Rightarrow> rule \<Rightarrow> number" where
  "required_area c v =
     (let required = Finite 0;
          required = (case min_per_crew v of
                        Some r \<Rightarrow> if truthy r then fmul r (crew c) else required
                      | None \<Rightarrow> required);
          required = (case min_per_crew_per_30days v of
                        Some r \<Rightarrow>
                          if truthy r
                          then fmul (fmul r (crew c))
                                 (fdiv (fmax (Finite 1) (missionDays c)) (Finite 30))
                          else required
                      | None \<Rightarrow> required);
          required = (case fixed_min v of
                        Some r \<Rightarrow> if truthy r then r else required
                      | None \<Rightarrow> required)
      in required)"

text \<open>The body of the loop over the rule entries; \<^verbatim>\<open>push\<close> appends to the report.\<close>

definition rule_step ::
  "habitat \<Rightarrow> (string \<rightharpoonup> zone) \<Rightarrow> check list \<Rightarrow> string \<times> rule \<Rightarrow> check list"
where
  "rule_step c zm report kv =
     (case kv of (k, v) \<Rightarrow>
        (case zm k of
           None \<Rightarrow> report @ [\<lparr>ok = False, msg = ''Missing zone: '' @ k\<rparr>]
         | Some z \<Rightarrow>
             (let required = required_area c v in
              if flt (area_m2 z) required
              then report @
                [\<lparr>ok = False,
                  msg = k @ '' TOO SMALL: '' @ numberToString (area_m2 z)
                        @ '' m^2 < required '' @ toFixed 1 required @ '' m^2''\<rparr>]
              else report @
                [\<lparr>ok = True,
                  msg = k @ '' OK: '' @ numberToString (area_m2 z)
                        @ '' m^2 >= required '' @ toFixed 1 required @ '' m^2''\<rparr>])))"

text \<open>
  The running sum of the areas, from zero and in the order of the list, each addition
  rounded; \<^verbatim>\<open>b.area_m2 || 0\<close> counts an area that is zero or NaN as zero.
\<close>

definition totalZonesArea :: "zone list \<Rightarrow> number" where
  "totalZonesArea zonesArr =
     foldl (\<lambda>a b. fadd a (if truthy (area_m2 b) then area_m2 b else Finite 0)) (Finite 0)
       zonesArr"

definition evaluateZones :: "habitat \<Rightarrow> zone list \<Rightarrow> check list" where
  "evaluateZones c zonesArr =
     (let report = [];
          zm = zoneMap zonesArr;
          report = foldl (rule_step c zm) report rules;
          total = totalZonesArea zonesArr
      in if flt (floorArea c) total
         then report @
           [\<lparr>ok = False,
             msg = ''TOTAL AREA EXCEEDS USABLE FLOOR AREA: '' @ toFixed 1 total
                   @ '' m^2 > floor '' @ toFixed 1 (floorArea c) @ '' m^2''\<rparr>]
         else report @
           [\<lparr>ok = True,
             msg = ''Total zones '' @ toFixed 1 total
                   @ '' m^2 within floor area '' @ toFixed 1 (floorArea c) @ '' m^2''\<rparr>])"

definition evaluation :: "habitat \<Rightarrow> check list" where
  "evaluation c = evaluateZones c (zones c)"

text \<open>The entry that one pass of the loop body adds to the report.\<close>

definition rule_result :: "habitat \<Rightarrow> (string \<rightharpoonup> zone) \<Rightarrow> string \<times> rule \<Rightarrow> check" where
  "rule_result c zm kv = last (rule_step c zm [] kv)"

subsection \<open>The requirement forms\<close>

text \<open>
  A rule entry has one of three forms. \<open>form_of\<close> reads the form off an entry of the
  table: the entry has it when exactly that property is present. \<open>required_by_form\<close> is
  the required area of a form in the arithmetic of the program: \<open>rate * crewSize\<close> for
  \<open>perCrew\<close>, the product of \<open>rate * crewSize\<close> and \<open>max 1 days / 30\<close> for
  \<open>perCrewPer30Days\<close>, each operation rounded, and the value itself for \<open>fixedMinimum\<close>.
\<close>

datatype requirement = perCrew number | perCrewPer30Days number | fixedMinimum number

fun required_by_form :: "number \<Rightarrow> number \<Rightarrow> requirement \<Rightarrow> number" where
  "required_by_form crewSize days (perCrew rate) = fmul rate crewSize"
| "required_by_form crewSize days (perCrewPer30Days rate) =
     fmul (fmul rate crewSize) (fdiv (fmax (Finite 1) days) (Finite 30))"
| "required_by_form crewSize days (fixedMinimum x) = x"

definition form_of :: "rule \<Rightarrow> requirement option" where
  "form_of v =
     (case (min_per_crew v, min_per_crew_per_30days v, fixed_min v) of
        (Some r, None, None) \<Rightarrow> Some (perCrew r)
      | (None, Some r, None) \<Rightarrow> Some (perCrewPer30Days r)
      | (None, None, Some x) \<Rightarrow> Some (fixedMinimum x)
      | _ \<Rightarrow> None)"

text \<open>
  The result for a zone \<open>z\<close> found under the name \<open>k\<close>, against a required area: failing
  when the area is less, passing otherwise, with the area in the default text of a number
  and the required area to one decimal place.
\<close>

definition verdict :: "string \<Rightarrow> zone \<Rightarrow> number \<Rightarrow> check" where
  "verdict k z required =
     (if flt (area_m2 z) required
      then \<lparr>ok = False,
           msg = k @ '' TOO SMALL: '' @ numberToString (area_m2 z)
                 @ '' m^2 < required '' @ toFixed 1 required @ '' m^2''\<rparr>
      else \<lparr>ok = True,
           msg = k @ '' OK: '' @ numberToString (area_m2 z)
                 @ '' m^2 >= required '' @ toFixed 1 required @ '' m^2''\<rparr>)"

subsection \<open>States of the component used as examples\<close>

text \<open>
  The zones the component starts with, the box preset, and the state after choosing that
  preset with the initial crew of 4 and mission of 180 days.
\<close>

definition initial_zones :: "zone list" where
  "initial_zones =
    [\<lparr>zone_id = Finite 1, name = ''Sleep'', area_m2 = Finite 6\<rparr>,
     \<lparr>zone_id = Finite 2, name = ''Hab'', area_m2 = Finite 8\<rparr>,
     \<lparr>zone_id = Finite 3, name = ''ECLSS'', area_m2 = Finite 4\<rparr>]"

definition preset_Box :: dims where
  "preset_Box = \<lparr>w = Finite 4, h = Finite 6, type = ''box''\<rparr>"

definition box_habitat :: habitat where
  "box_habitat =
     \<lparr>shapeName = ''Box'', dimensions = preset_Box, crew = Finite 4, missionDays = Finite 180,
      zones = initial_zones\<rparr>"

text \<open>
  The state the component starts in, with the cylinder preset of 6 by 8; and two lists of
  the same three zones, areas 23.8, 0.1 and 0.1 as the text of an input field reads them,
  with the large one first and with the large one last.
\<close>

definition preset_Cylinder :: dims where
  "preset_Cylinder = \<lparr>w = Finite 6, h = Finite 8, type = ''cylinder''\<rparr>"

definition initial_habitat :: habitat where
  "initial_habitat =
     \<lparr>shapeName = ''Cylinder'', dimensions = preset_Cylinder, crew = Finite 4,
      missionDays = Finite 180, zones = initial_zones\<rparr>"

definition large_first :: "zone list" where
  "large_first =
     [\<lparr>zone_id = Finite 1, name = ''A'', area_m2 = fl (238 / 10)\<rparr>,
      \<lparr>zone_id = Finite 2, name = ''B'', area_m2 = fl (1 / 10)\<rparr>,
      \<lparr>zone_id = Finite 3, name = ''C'', area_m2 = fl (1 / 10)\<rparr>]"

definition large_last :: "zone list" where
  "large_last =
     [\<lparr>zone_id = Finite 2, name = ''B'', area_m2 = fl (1 / 10)\<rparr>,
      \<lparr>zone_id = Finite 3, name = ''C'', area_m2 = fl (1 / 10)\<rparr>,
      \<lparr>zone_id = Finite 1, name = ''A'', area_m2 = fl (238 / 10)\<rparr>]"

section \<open>Evaluating numbers and their text\<close>

text \<open>
  Instances of the recursive equations at numerals, and the values of bound variables
  that may be substituted once evaluated, for computing with concrete numbers.
\<close>

lemma len_numeral:
  "len b (numeral k) = (if b < 2 then 0 else Suc (len b (numeral k div b)))"
  by (subst len.simps) simp

lemma len_0: "len b 0 = 0"
  by (subst len.simps) simp

lemma len_1: "len b (Suc 0) = (if b < 2 then 0 else Suc 0)"
  by (subst len.simps) (simp add: len_0)

lemma Let_fraction:
  "Let (numeral a / numeral b :: real) f = f (numeral a / numeral b)"
  "Let (- (numeral a / numeral b) :: real) f = f (- (numeral a / numeral b))"
  "Let (1 / numeral b :: real) f = f (1 / numeral b)"
  "Let (- (1 / numeral b) :: real) f = f (- (1 / numeral b))"
  by (simp_all add: Let_def)

lemma Let_bool: "Let True g = g True" "Let False g = g False"
  by (simp_all add: Let_def)

lemma Let_string: "Let ([] :: string) g = g []" "Let (c # cs :: string) g = g (c # cs)"
  by (simp_all add: Let_def)

lemmas fl_eval = fl_def floor_log_def scale_def round_even_def len_numeral len_0 len_1
  Let_fraction Let_bool

lemma digits_numeral:
  "digits (numeral k) =
     (if (numeral k :: nat) < 10 then [digit (numeral k)]
      else digits (numeral k div 10) @ [digit (numeral k mod 10)])"
  by (rule digits.simps)

lemma digits_0: "digits 0 = ''0''"
  by (simp add: digits.simps [of 0] digit_def)

lemma digits_1: "digits (Suc 0) = ''1''"
  by (simp add: digits.simps [of "Suc 0"] digit_def)

lemmas digits_eval = digits_numeral digits_0 digits_1 digit_def

lemmas find_digits_numeral = find_digits.simps [of _ _ "numeral j"] for j

lemmas find_digits_one = find_digits.simps [of _ _ 1]

lemmas str_eval = numberToString_def positiveToString_def shortest_def find_digits_numeral
  find_digits_one roundtrips_def zeros_def exponent_def digits_eval fl_eval Let_string

section \<open>Facts about rounding\<close>

text \<open>
  \<open>fl\<close> keeps the sign, is exact on the integers below \<open>2^53\<close>, and returns a multiple of
  the unit \<open>2^t\<close> of its binade that is within half a unit of its argument.
\<close>

lemma scale_pos: "0 < b \<Longrightarrow> 0 < scale b t"
  by (simp add: scale_def)

lemma round_even_nonneg: "0 \<le> q \<Longrightarrow> 0 \<le> round_even q"
  by (auto simp: round_even_def Let_def)

lemma round_even_of_int: "round_even (of_int n) = n"
  by (simp add: round_even_def)

lemma fl_nonpos:
  assumes "x \<le> 0"
  shows "fl x = NegInfinity \<or> (\<exists>r. r \<le> 0 \<and> fl x = Finite r)"
proof (cases "x = 0")
  case True
  then show ?thesis by (simp add: fl_def)
next
  case False
  with assms have neg: "x < 0" by simp
  define t where "t = max (floor_log 2 \<bar>x\<bar> - 52) (- 1074)"
  define r where "r = of_int (round_even (\<bar>x\<bar> / scale 2 t)) * scale 2 t"
  have "0 \<le> \<bar>x\<bar> / scale 2 t"
    using scale_pos [of 2 t] by simp
  then have "0 \<le> r"
    unfolding r_def using round_even_nonneg scale_pos [of 2 t] by simp
  moreover have "fl x = (if 2 ^ 1024 \<le> r then NegInfinity else Finite (- r))"
    using neg by (simp add: fl_def Let_def r_def t_def)
  ultimately show ?thesis by auto
qed

lemma fle_zero_cases:
  "fle x (Finite 0) \<longleftrightarrow> x = NegInfinity \<or> (\<exists>a. a \<le> 0 \<and> x = Finite a)"
  by (cases x) (auto simp: fle_def)

lemma fmul_rate_nonpos:
  assumes "0 < rate" and "fle x (Finite 0)"
  shows "fle (fmul (Finite rate) x) (Finite 0)"
proof -
  from assms(2) consider "x = NegInfinity" | a where "a \<le> 0" "x = Finite a"
    unfolding fle_zero_cases by blast
  then show ?thesis
  proof cases
    case 1
    with assms(1) show ?thesis by (simp add: fle_def)
  next
    case 2
    from assms(1) 2(1) have "rate * a \<le> 0"
      by (simp add: mult_nonneg_nonpos)
    from fl_nonpos [OF this] 2(2) show ?thesis
      unfolding fle_zero_cases by simp
  qed
qed

lemma fmax_one_nonpos: "fle x (Finite 0) \<Longrightarrow> fmax (Finite 1) x = Finite 1"
  unfolding fle_zero_cases by auto

lemma len_bounds:
  "2 \<le> b \<Longrightarrow> 0 < n \<Longrightarrow> b ^ (len b n - 1) \<le> n \<and> n < b ^ len b n"
proof (induction b n rule: len.induct)
  case (1 b n)
  show ?case
  proof (cases "n div b = 0")
    case True
    with 1(2,3) have "n < b" 
      by (simp add: div_eq_0_iff)
    moreover have "len b n = Suc 0"
      using 1(2,3) True by (subst len.simps) (simp add: len.simps [of b 0])
    ultimately show ?thesis using 1(3) by simp
  next
    case False
    then have pos: "0 < n div b" by simp
    have ln: "len b n = Suc (len b (n div b))"
      using 1(2,3) by (subst len.simps) simp
    from 1(1) 1(2,3) pos have ih: "b ^ (len b (n div b) - 1) \<le> n div b" "n div b < b ^ len b (n div b)"
      by auto
    have lpos: "0 < len b (n div b)"
      using pos 1(2) by (subst len.simps) simp
    have "b ^ (len b (n div b)) = b * b ^ (len b (n div b) - 1)"
      using lpos by (cases "len b (n div b)") simp_all
    also have "\<dots> \<le> b * (n div b)"
      using ih(1) by simp
    also have "\<dots> \<le> n"
      by simp
    finally have lower: "b ^ (len b (n div b)) \<le> n" .
    have "n < b * (n div b + 1)"
      using 1(2) by (metis Suc_eq_plus1 dividend_less_times_div zero_less_iff_neq_zero
          not_numeral_le_zero mult_Suc_right)
    also have "\<dots> \<le> b * b ^ len b (n div b)"
    proof -
      from ih(2) have "n div b + 1 \<le> b ^ len b (n div b)" by simp
      then show ?thesis by (rule mult_le_mono2)
    qed
    finally have upper: "n < b ^ Suc (len b (n div b))" by simp
    from lower upper show ?thesis by (simp add: ln)
  qed
qed

lemma floor_log_ge_one:
  assumes "2 \<le> b" and "1 \<le> x"
  shows "0 \<le> floor_log b x"
    and "real b ^ nat (floor_log b x) \<le> x"
    and "x < real b ^ (nat (floor_log b x) + 1)"
proof -
  define m where "m = nat \<lfloor>x\<rfloor>"
  from assms(2) have mpos: "0 < m"
    unfolding m_def by simp
  from assms(2) have mx: "real m \<le> x" "x < real m + 1"
    unfolding m_def by simp_all
  from len_bounds [OF assms(1) mpos]
  have lb: "b ^ (len b m - 1) \<le> m" and ub: "m < b ^ len b m"
    by simp_all
  have lpos: "0 < len b m"
    using mpos assms(1) by (subst len.simps) simp
  have e: "floor_log b x = int (len b m) - 1"
    using assms(2) by (simp add: floor_log_def m_def)
  show "0 \<le> floor_log b x"
    using lpos by (simp add: e)
  have ne: "nat (floor_log b x) = len b m - 1"
    using lpos by (simp add: e)
  have "real (b ^ (len b m - 1)) \<le> real m"
    using lb by (simp only: of_nat_le_iff)
  then have "real b ^ (len b m - 1) \<le> real m"
    by (simp only: of_nat_power)
  from this mx(1) have "real b ^ (len b m - 1) \<le> x"
    by (rule order_trans)
  then show "real b ^ nat (floor_log b x) \<le> x"
    by (simp only: ne)
  have "m + 1 \<le> b ^ len b m"
    using ub by simp
  then have "real (m + 1) \<le> real (b ^ len b m)"
    by (simp only: of_nat_le_iff)
  then have "real m + 1 \<le> real b ^ len b m"
    by (simp only: of_nat_power of_nat_add of_nat_1)
  with mx(2) have "x < real b ^ len b m"
    by (rule less_le_trans)
  moreover have "nat (floor_log b x) + 1 = len b m"
    using lpos by (simp add: ne)
  ultimately show "x < real b ^ (nat (floor_log b x) + 1)"
    by simp
qed

lemma fl_int_exact:
  assumes "\<bar>n\<bar> < 2 ^ 53"
  shows "fl (of_int n) = Finite (of_int n)"
proof (cases "n = 0")
  case True
  then show ?thesis by (simp add: fl_def)
next
  case False
  define a :: real where "a = \<bar>of_int n\<bar>"
  define e where "e = floor_log 2 a"
  have a1: "1 \<le> a"
    using False unfolding a_def by (simp add: abs_if)
  have a_int: "a = of_int \<bar>n\<bar>"
    unfolding a_def by simp
  have a53: "a < 2 ^ 53"
    unfolding a_int using assms by (metis of_int_less_iff of_int_numeral of_int_power)
  from floor_log_ge_one [of 2 a] a1
  have e0: "0 \<le> e" and elow: "(2::real) ^ nat e \<le> a"
    unfolding e_def by simp_all
  from elow a53 have "(2::real) ^ nat e < 2 ^ 53"
    by linarith
  then have "nat e < 53"
    by (rule power_less_imp_less_exp [rotated]) simp
  with e0 have e52: "e \<le> 52"
    by linarith
  define j where "j = nat (52 - e)"
  have t: "max (e - 52) (- 1074) = e - 52"
    using e0 by simp
  have sc: "scale 2 (e - 52) = 1 / 2 ^ j"
    using e52 e0 by (cases "e = 52") (simp_all add: scale_def j_def)
  have q: "a / scale 2 (e - 52) = of_int (\<bar>n\<bar> * 2 ^ j)"
    by (simp add: sc a_int)
  have "round_even (a / scale 2 (e - 52)) = \<bar>n\<bar> * 2 ^ j"
    by (simp only: q round_even_of_int)
  then have r: "of_int (round_even (a / scale 2 (e - 52))) * scale 2 (e - 52) = a"
    by (simp add: sc a_int)
  have big: "\<not> (2::real) ^ 1024 \<le> a"
  proof -
    have "(2::real) ^ 53 \<le> 2 ^ 1024"
      by (rule power_increasing) simp_all
    with a53 show ?thesis by linarith
  qed
  have "fl (of_int n) = Finite (if (of_int n :: real) < 0 then - a else a)"
    using False big
    by (simp add: fl_def Let_def a_def [symmetric] e_def [symmetric] t r)
  then show ?thesis
    by (simp add: a_def abs_if)
qed

lemma round_even_error: "\<bar>of_int (round_even q) - q\<bar> \<le> 1 / 2"
  unfolding round_even_def Let_def by (auto simp: abs_if) linarith+

lemma fl_nearest:
  assumes "fl x = Finite r" and "x \<noteq> 0"
  defines "t \<equiv> max (floor_log 2 \<bar>x\<bar> - 52) (- 1074)"
  shows "\<exists>n. r = of_int n * scale 2 t" and "\<bar>r - x\<bar> \<le> scale 2 t / 2"
proof -
  define n where "n = round_even (\<bar>x\<bar> / scale 2 t)"
  have sp: "0 < scale 2 t"
    by (rule scale_pos) simp
  from assms(1,2) have r: "r = (if x < 0 then - (of_int n * scale 2 t) else of_int n * scale 2 t)"
    by (simp add: fl_def Let_def t_def n_def split: if_splits)
  then show "\<exists>n. r = of_int n * scale 2 t"
    by (cases "x < 0") (auto intro: exI [of _ "- n"] exI [of _ n])
  have "\<bar>of_int n - \<bar>x\<bar> / scale 2 t\<bar> \<le> 1 / 2"
    unfolding n_def by (rule round_even_error)
  then have "\<bar>of_int n - \<bar>x\<bar> / scale 2 t\<bar> * scale 2 t \<le> 1 / 2 * scale 2 t"
    using sp by (simp add: mult_right_mono)
  moreover have "\<bar>of_int n - \<bar>x\<bar> / scale 2 t\<bar> * scale 2 t = \<bar>of_int n * scale 2 t - \<bar>x\<bar>\<bar>"
  proof -
    have "\<bar>of_int n - \<bar>x\<bar> / scale 2 t\<bar> * scale 2 t
        = \<bar>(of_int n - \<bar>x\<bar> / scale 2 t) * scale 2 t\<bar>"
      using sp by (simp add: abs_mult)
    also have "(of_int n - \<bar>x\<bar> / scale 2 t) * scale 2 t = of_int n * scale 2 t - \<bar>x\<bar>"
      using sp by (simp add: left_diff_distrib)
    finally show ?thesis .
  qed
  ultimately have "\<bar>of_int n * scale 2 t - \<bar>x\<bar>\<bar> \<le> scale 2 t / 2"
    by simp
  then show "\<bar>r - x\<bar> \<le> scale 2 t / 2"
    unfolding r by (auto simp: abs_if split: if_splits)
qed

section \<open>The shape of the report\<close>

lemma rule_step_append:
  "rule_step c zm report kv = report @ [rule_result c zm kv]"
  by (simp add: rule_step_def rule_result_def Let_def split: prod.split option.split)

lemma foldl_snoc_map:
  "foldl (\<lambda>rep kv. rep @ [g kv]) report rs = report @ map g rs"
  by (induction rs arbitrary: report) simp_all

lemma foldl_rule_step:
  "foldl (rule_step c zm) report rs = report @ map (rule_result c zm) rs"
proof -
  have "rule_step c zm = (\<lambda>rep kv. rep @ [rule_result c zm kv])"
    by (intro ext) (rule rule_step_append)
  then show ?thesis
    by (simp only: foldl_snoc_map)
qed

lemma foldl_zoneMap:
  "foldl (\<lambda>m z. m(name z \<mapsto> z)) m0 zs k =
     (if filter (\<lambda>z. name z = k) zs = [] then m0 k
      else Some (last (filter (\<lambda>z. name z = k) zs)))"
proof (induction zs rule: rev_induct)
  case Nil
  show ?case by simp
next
  case (snoc z zs)
  let ?f = "\<lambda>m z. m(name z \<mapsto> z)"
  have step: "foldl ?f m0 (zs @ [z]) = (foldl ?f m0 zs)(name z \<mapsto> z)"
    by (simp only: foldl_append foldl.simps)
  show ?case
  proof (cases "k = name z")
    case True
    then show ?thesis
      unfolding step by (simp add: fun_upd_same del: fun_upd_apply)
  next
    case False
    then have "((foldl ?f m0 zs)(name z \<mapsto> z)) k = foldl ?f m0 zs k"
      by (rule fun_upd_other)
    moreover from False have "filter (\<lambda>y. name y = k) (zs @ [z]) = filter (\<lambda>y. name y = k) zs"
      by auto
    ultimately show ?thesis
      unfolding step by (simp only: snoc.IH)
  qed
qed

lemma zoneMap_last:
  "zoneMap zs k =
     (if filter (\<lambda>z. name z = k) zs = [] then None
      else Some (last (filter (\<lambda>z. name z = k) zs)))"
  by (simp add: zoneMap_def foldl_zoneMap)

lemma zoneMap_None: "zoneMap zs k = None \<longleftrightarrow> k \<notin> name ` set zs"
  by (auto simp: zoneMap_last filter_empty_conv)

lemma length_rules: "length rules = 6"
  by (simp add: rules_def)

lemma evaluateZones_shape:
  "evaluateZones c zs =
     map (rule_result c (zoneMap zs)) rules @
       [if flt (floorArea c) (totalZonesArea zs)
        then \<lparr>ok = False,
             msg = ''TOTAL AREA EXCEEDS USABLE FLOOR AREA: '' @ toFixed 1 (totalZonesArea zs)
                   @ '' m^2 > floor '' @ toFixed 1 (floorArea c) @ '' m^2''\<rparr>
        else \<lparr>ok = True,
             msg = ''Total zones '' @ toFixed 1 (totalZonesArea zs)
                   @ '' m^2 within floor area '' @ toFixed 1 (floorArea c) @ '' m^2''\<rparr>]"
  by (simp add: evaluateZones_def foldl_rule_step Let_def)

lemma length_evaluateZones: "length (evaluateZones c zs) = length rules + 1"
  by (simp add: evaluateZones_shape)

lemma evaluateZones_nth:
  "i < length rules \<Longrightarrow> evaluateZones c zs ! i = rule_result c (zoneMap zs) (rules ! i)"
  by (simp add: evaluateZones_shape nth_append)

section \<open>Facts about the report entries\<close>



lemma required_area_rules:
  assumes "kv \<in> set rules"
  shows "\<exists>f. form_of (snd kv) = Some f
           \<and> required_area c (snd kv) = required_by_form (crew c) (missionDays c) f"
  using assms by (auto simp: rules_def form_of_def required_area_def truthy_def)

lemma rule_result_present:
  "zm (fst kv) = Some z \<Longrightarrow>
   rule_result c zm kv = verdict (fst kv) z (required_area c (snd kv))"
  by (cases kv) (simp add: rule_result_def rule_step_def verdict_def Let_def)

lemma rule_result_missing:
  "zm (fst kv) = None \<Longrightarrow>
   rule_result c zm kv = \<lparr>ok = False, msg = ''Missing zone: '' @ fst kv\<rparr>"
  by (cases kv) (simp add: rule_result_def rule_step_def)

lemma rule_result_cong:
  "zm k = zm' k \<Longrightarrow> rule_result c zm (k, v) = rule_result c zm' (k, v)"
  by (simp add: rule_result_def rule_step_def)



lemma totalZonesArea_Nil: "totalZonesArea [] = Finite 0"
  by (simp add: totalZonesArea_def)

lemma totalZonesArea_snoc:
  "totalZonesArea (zs @ [z]) =
     fadd (totalZonesArea zs) (if truthy (area_m2 z) then area_m2 z else Finite 0)"
  by (simp add: totalZonesArea_def)

lemma totalZonesArea_whole:
  assumes "map area_m2 zs = map (\<lambda>n. Finite (real n)) ns" and "sum_list ns < 2 ^ 53"
  shows "totalZonesArea zs = Finite (real (sum_list ns))"
  using assms
proof (induction zs arbitrary: ns rule: rev_induct)
  case Nil
  then show ?case by (simp add: totalZonesArea_Nil)
next
  case (snoc z zs)
  from snoc.prems(1) obtain ms m where ns: "ns = ms @ [m]"
    and ms: "map area_m2 zs = map (\<lambda>n. Finite (real n)) ms"
    and m: "area_m2 z = Finite (real m)"
    by (cases ns rule: rev_cases) auto
  from snoc.prems(2) have small: "sum_list ms + m < 2 ^ 53"
    by (simp add: ns)
  then have "sum_list ms < 2 ^ 53"
    by simp
  with ms have ih: "totalZonesArea zs = Finite (real (sum_list ms))"
    by (rule snoc.IH)
  have "\<bar>int (sum_list ms + m)\<bar> < 2 ^ 53"
    using small by simp
  then have ex: "fl (of_int (int (sum_list ms + m))) = Finite (of_int (int (sum_list ms + m)))"
    by (rule fl_int_exact)
  have arg: "(if truthy (Finite (real m)) then Finite (real m) else Finite 0) = Finite (real m)"
    by (simp add: truthy_def)
  have "fadd (Finite (real (sum_list ms))) (Finite (real m)) = fl (real (sum_list ms) + real m)"
    by simp
  also have "\<dots> = Finite (real (sum_list ms + m))"
    using ex by simp
  finally have step: "fadd (Finite (real (sum_list ms))) (Finite (real m))
      = Finite (real (sum_list ms + m))" .
  show ?case
    unfolding totalZonesArea_snoc ih m arg step ns by simp
qed

section \<open>The example states, evaluated\<close>

lemma toFixed_examples:
  "toFixed 1 (Finite 0) = ''0.0''" "toFixed 1 (Finite 4) = ''4.0''"
  "toFixed 1 (Finite 6) = ''6.0''" "toFixed 1 (Finite 16) = ''16.0''"
  "toFixed 1 (Finite 18) = ''18.0''" "toFixed 1 (Finite 24) = ''24.0''"
  by (simp_all add: toFixed_def digits_eval)

lemma numberToString_examples:
  "numberToString (Finite 4) = ''4''" "numberToString (Finite 6) = ''6''"
  "numberToString (Finite 20) = ''20''"
  by (simp_all add: str_eval cong: let_weak_cong prod.case_cong_weak)

lemma fl_small:
  "fl 0 = Finite 0" "fl 16 = Finite 16" "fl 24 = Finite 24" "fl 60 = Finite 60"
  "fl 3 = Finite 3" "fl 8 = Finite 8" "fl 12 = Finite 12" "fl 14 = Finite 14"
  "fl 18 = Finite 18" "fl 6 = Finite 6"
  by (simp_all add: fl_eval cong: let_weak_cong)

lemmas example_defs = box_habitat_def preset_Box_def initial_zones_def

lemma zoneMap_initial:
  "zoneMap initial_zones =
     [''Sleep'' \<mapsto> \<lparr>zone_id = Finite 1, name = ''Sleep'', area_m2 = Finite 6\<rparr>,
      ''Hab'' \<mapsto> \<lparr>zone_id = Finite 2, name = ''Hab'', area_m2 = Finite 8\<rparr>,
      ''ECLSS'' \<mapsto> \<lparr>zone_id = Finite 3, name = ''ECLSS'', area_m2 = Finite 4\<rparr>]"
  by (simp add: zoneMap_def initial_zones_def)

lemmas toFixed_examples_Suc = toFixed_examples [unfolded One_nat_def]

lemma floorArea_box: "floorArea (box_habitat\<lparr>crew := x, missionDays := y\<rparr>) = Finite 24"
  "floorArea box_habitat = Finite 24"
  by (simp_all add: floorArea_def computeFloorArea_def example_defs fl_small)

lemma totalZonesArea_initial: "totalZonesArea initial_zones = Finite 18"
  by (simp add: totalZonesArea_def initial_zones_def truthy_def fl_small)





lemma fl_tenth: "fl (1 / 10) = Finite (3602879701896397 / 36028797018963968)"
  by (simp add: fl_eval cong: let_weak_cong)

lemma fl_238: "fl (119 / 5) = Finite (6699104445713613 / 281474976710656)"
  by (simp add: fl_eval cong: let_weak_cong)

lemma sum_large_first:
  "totalZonesArea large_first = Finite (6755399441055745 / 281474976710656)"
  by (simp add: totalZonesArea_def large_first_def fl_tenth fl_238 truthy_def)
     (simp add: fl_eval cong: let_weak_cong)

lemma sum_large_last: "totalZonesArea large_last = Finite 24"
  by (simp add: totalZonesArea_def large_last_def fl_tenth fl_238 truthy_def)
     (simp add: fl_eval cong: let_weak_cong)

lemma toFixed_24_up: "toFixed 1 (Finite (6755399441055745 / 281474976710656)) = ''24.0''"
  by (simp add: toFixed_def digits_eval)

lemma toFixed_floor_cylinder:
  "toFixed 1 (Finite (7958517471031995 / 281474976710656)) = ''28.3''"
  by (simp add: toFixed_def digits_eval)

lemma floorArea_initial: "floorArea initial_habitat = Finite (7958517471031995 / 281474976710656)"
  by (simp add: floorArea_def initial_habitat_def preset_Cylinder_def computeFloorArea_def
      Math_PI_def fl_eval cong: let_weak_cong)

lemma initial_report:
  "evaluation initial_habitat =
     [\<lparr>ok = False, msg = ''Sleep TOO SMALL: 6 m^2 < required 16.0 m^2''\<rparr>,
      \<lparr>ok = False, msg = ''Missing zone: Recreation''\<rparr>,
      \<lparr>ok = False, msg = ''Missing zone: Exercise''\<rparr>,
      \<lparr>ok = False, msg = ''Missing zone: Hygiene''\<rparr>,
      \<lparr>ok = True, msg = ''ECLSS OK: 4 m^2 >= required 4.0 m^2''\<rparr>,
      \<lparr>ok = False, msg = ''Missing zone: Stowage''\<rparr>,
      \<lparr>ok = True, msg = ''Total zones 18.0 m^2 within floor area 28.3 m^2''\<rparr>]"
proof -
  have z: "zones initial_habitat = initial_zones" and c: "crew initial_habitat = Finite 4"
    by (simp_all add: initial_habitat_def)
  show ?thesis
    by (simp add: evaluation_def z evaluateZones_shape floorArea_initial totalZonesArea_initial
        rules_def zoneMap_initial rule_result_def rule_step_def required_area_def c truthy_def
        fl_small toFixed_examples_Suc numberToString_examples
        toFixed_floor_cylinder [unfolded One_nat_def])
qed

lemma total_30_exceeds_cylinder_floor:
  "last (evaluateZones initial_habitat
     [\<lparr>zone_id = Finite 1, name = ''Sleep'', area_m2 = Finite 10\<rparr>,
      \<lparr>zone_id = Finite 2, name = ''Hab'', area_m2 = Finite 12\<rparr>,
      \<lparr>zone_id = Finite 3, name = ''ECLSS'', area_m2 = Finite 8\<rparr>])
   = \<lparr>ok = False,
      msg = ''TOTAL AREA EXCEEDS USABLE FLOOR AREA: 30.0 m^2 > floor 28.3 m^2''\<rparr>"
proof -
  have "totalZonesArea
     [\<lparr>zone_id = Finite 1, name = ''Sleep'', area_m2 = Finite 10\<rparr>,
      \<lparr>zone_id = Finite 2, name = ''Hab'', area_m2 = Finite 12\<rparr>,
      \<lparr>zone_id = Finite 3, name = ''ECLSS'', area_m2 = Finite 8\<rparr>] = Finite 30"
    using totalZonesArea_whole [of _ "[10, 12, 8]"] by simp
  moreover have "toFixed 1 (Finite 30) = ''30.0''"
    by (simp add: toFixed_def digits_eval)
  ultimately show ?thesis
    by (simp add: evaluateZones_shape floorArea_initial
        toFixed_floor_cylinder [unfolded One_nat_def])
qed

section \<open>Geometry: the four kinds\<close>

text \<open>
  C7. A cylinder has volume \<open>\<pi> (w/2) (w/2) h\<close> and floor area \<open>\<pi> (w/2) (w/2)\<close>, with
  \<^verbatim>\<open>Math.PI\<close> for \<open>\<pi>\<close> and every product and quotient that of the program, so that the
  volume is the floor area times \<open>h\<close>. A box has floor area \<open>w h\<close> and volume that floor
  area times the ceiling height 2.5. The box of 4 by 6 has floor area 24 and volume 60;
  the cylinder of 6 by 8 has floor area 28.274333882308138 and volume 226.1946710584651.
  The equations hold for all dimensions, the positive ones among them.
\<close>

theorem cylinder_box_geometry:
  "computeVolumeMeters3 \<lparr>w = pw, h = ph, type = ''cylinder''\<rparr>
     = fmul (fmul (fmul Math_PI (fdiv pw (Finite 2))) (fdiv pw (Finite 2))) ph
   \<and> computeFloorArea \<lparr>w = pw, h = ph, type = ''cylinder''\<rparr>
     = fmul (fmul Math_PI (fdiv pw (Finite 2))) (fdiv pw (Finite 2))
   \<and> computeVolumeMeters3 \<lparr>w = pw, h = ph, type = ''cylinder''\<rparr>
     = fmul (computeFloorArea \<lparr>w = pw, h = ph, type = ''cylinder''\<rparr>) ph
   \<and> computeFloorArea \<lparr>w = pw, h = ph, type = ''box''\<rparr> = fmul pw ph
   \<and> computeVolumeMeters3 \<lparr>w = pw, h = ph, type = ''box''\<rparr>
       = fmul (computeFloorArea \<lparr>w = pw, h = ph, type = ''box''\<rparr>) (Finite (5 / 2))
   \<and> computeFloorArea \<lparr>w = Finite 4, h = Finite 6, type = ''box''\<rparr> = Finite 24
   \<and> computeVolumeMeters3 \<lparr>w = Finite 4, h = Finite 6, type = ''box''\<rparr> = Finite 60
   \<and> computeFloorArea \<lparr>w = Finite 6, h = Finite 8, type = ''cylinder''\<rparr>
       = Finite (7958517471031995 / 281474976710656)
   \<and> computeVolumeMeters3 \<lparr>w = Finite 6, h = Finite 8, type = ''cylinder''\<rparr>
       = Finite (7958517471031995 / 35184372088832)
   \<and> numberToString (Finite (7958517471031995 / 281474976710656)) = ''28.274333882308138''
   \<and> numberToString (Finite (7958517471031995 / 35184372088832)) = ''226.1946710584651''"
proof -
  have general:
    "computeVolumeMeters3 \<lparr>w = pw, h = ph, type = ''cylinder''\<rparr>
       = fmul (fmul (fmul Math_PI (fdiv pw (Finite 2))) (fdiv pw (Finite 2))) ph"
    "computeFloorArea \<lparr>w = pw, h = ph, type = ''cylinder''\<rparr>
       = fmul (fmul Math_PI (fdiv pw (Finite 2))) (fdiv pw (Finite 2))"
    "computeFloorArea \<lparr>w = pw, h = ph, type = ''box''\<rparr> = fmul pw ph"
    "computeVolumeMeters3 \<lparr>w = pw, h = ph, type = ''box''\<rparr>
       = fmul (fmul pw ph) (Finite (5 / 2))"
    by (simp_all add: computeVolumeMeters3_def computeFloorArea_def Let_def)
  have box: "computeFloorArea \<lparr>w = Finite 4, h = Finite 6, type = ''box''\<rparr> = Finite 24"
    "computeVolumeMeters3 \<lparr>w = Finite 4, h = Finite 6, type = ''box''\<rparr> = Finite 60"
    by (simp_all add: computeVolumeMeters3_def computeFloorArea_def Let_def fl_small)
  have cyl: "computeFloorArea \<lparr>w = Finite 6, h = Finite 8, type = ''cylinder''\<rparr>
       = Finite (7958517471031995 / 281474976710656)"
    "computeVolumeMeters3 \<lparr>w = Finite 6, h = Finite 8, type = ''cylinder''\<rparr>
       = Finite (7958517471031995 / 35184372088832)"
    by (simp_all add: computeVolumeMeters3_def computeFloorArea_def Math_PI_def fl_eval
        cong: let_weak_cong)
  have printed: "numberToString (Finite (7958517471031995 / 281474976710656)) = ''28.274333882308138''"
    "numberToString (Finite (7958517471031995 / 35184372088832)) = ''226.1946710584651''"
    by (simp_all add: str_eval cong: let_weak_cong prod.case_cong_weak)
  show ?thesis
    by (simp only: general box cyl printed simp_thms)
qed

text \<open>
  C8. A sphere has volume \<open>(4/3) \<pi> (w/2) (w/2) (w/2)\<close> and floor area \<open>\<pi> (w/2) (w/2)\<close>,
  the great circle. An ellipsoid has volume \<open>(4/3) \<pi> (w/2) (w/2) (h/2)\<close> and floor area
  \<open>\<pi> (w/2) (h/2)\<close>, which mixes the two axes. The products and quotients are those of
  the program, from left to right. The sphere preset of 5 has volume 65.44984694978736
  and floor area 19.634954084936208; the inflatable preset of 8 by 4 has volume
  134.0412865531645 and floor area 25.132741228718345.
\<close>

theorem sphere_ellipsoid_geometry:
  "computeVolumeMeters3 \<lparr>w = pw, h = ph, type = ''sphere''\<rparr>
     = fmul (fmul (fmul (fmul (fdiv (Finite 4) (Finite 3)) Math_PI) (fdiv pw (Finite 2)))
          (fdiv pw (Finite 2))) (fdiv pw (Finite 2))
   \<and> computeFloorArea \<lparr>w = pw, h = ph, type = ''sphere''\<rparr>
     = fmul (fmul Math_PI (fdiv pw (Finite 2))) (fdiv pw (Finite 2))
   \<and> computeVolumeMeters3 \<lparr>w = pw, h = ph, type = ''ellipsoid''\<rparr>
     = fmul (fmul (fmul (fmul (fdiv (Finite 4) (Finite 3)) Math_PI) (fdiv pw (Finite 2)))
          (fdiv pw (Finite 2))) (fdiv ph (Finite 2))
   \<and> computeFloorArea \<lparr>w = pw, h = ph, type = ''ellipsoid''\<rparr>
     = fmul (fmul Math_PI (fdiv pw (Finite 2))) (fdiv ph (Finite 2))
   \<and> computeVolumeMeters3 \<lparr>w = Finite 5, h = Finite 5, type = ''sphere''\<rparr>
       = Finite (4605623536476849 / 70368744177664)
   \<and> computeFloorArea \<lparr>w = Finite 5, h = Finite 5, type = ''sphere''\<rparr>
       = Finite (5526748243772219 / 281474976710656)
   \<and> computeVolumeMeters3 \<lparr>w = Finite 8, h = Finite 4, type = ''ellipsoid''\<rparr>
       = Finite (4716158501352293 / 35184372088832)
   \<and> computeFloorArea \<lparr>w = Finite 8, h = Finite 4, type = ''ellipsoid''\<rparr>
       = Finite (884279719003555 / 35184372088832)
   \<and> numberToString (Finite (4605623536476849 / 70368744177664)) = ''65.44984694978736''
   \<and> numberToString (Finite (5526748243772219 / 281474976710656)) = ''19.634954084936208''
   \<and> numberToString (Finite (4716158501352293 / 35184372088832)) = ''134.0412865531645''
   \<and> numberToString (Finite (884279719003555 / 35184372088832)) = ''25.132741228718345''"
proof -
  have general:
    "computeVolumeMeters3 \<lparr>w = pw, h = ph, type = ''sphere''\<rparr>
       = fmul (fmul (fmul (fmul (fdiv (Finite 4) (Finite 3)) Math_PI) (fdiv pw (Finite 2)))
            (fdiv pw (Finite 2))) (fdiv pw (Finite 2))"
    "computeFloorArea \<lparr>w = pw, h = ph, type = ''sphere''\<rparr>
       = fmul (fmul Math_PI (fdiv pw (Finite 2))) (fdiv pw (Finite 2))"
    "computeVolumeMeters3 \<lparr>w = pw, h = ph, type = ''ellipsoid''\<rparr>
       = fmul (fmul (fmul (fmul (fdiv (Finite 4) (Finite 3)) Math_PI) (fdiv pw (Finite 2)))
            (fdiv pw (Finite 2))) (fdiv ph (Finite 2))"
    "computeFloorArea \<lparr>w = pw, h = ph, type = ''ellipsoid''\<rparr>
       = fmul (fmul Math_PI (fdiv pw (Finite 2))) (fdiv ph (Finite 2))"
    by (simp_all add: computeVolumeMeters3_def computeFloorArea_def Let_def)
  have presets:
    "computeVolumeMeters3 \<lparr>w = Finite 5, h = Finite 5, type = ''sphere''\<rparr>
       = Finite (4605623536476849 / 70368744177664)"
    "computeFloorArea \<lparr>w = Finite 5, h = Finite 5, type = ''sphere''\<rparr>
       = Finite (5526748243772219 / 281474976710656)"
    "computeVolumeMeters3 \<lparr>w = Finite 8, h = Finite 4, type = ''ellipsoid''\<rparr>
       = Finite (4716158501352293 / 35184372088832)"
    "computeFloorArea \<lparr>w = Finite 8, h = Finite 4, type = ''ellipsoid''\<rparr>
       = Finite (884279719003555 / 35184372088832)"
    by (simp_all add: computeVolumeMeters3_def computeFloorArea_def Math_PI_def fl_eval
        cong: let_weak_cong)
  have printed:
    "numberToString (Finite (4605623536476849 / 70368744177664)) = ''65.44984694978736''"
    "numberToString (Finite (5526748243772219 / 281474976710656)) = ''19.634954084936208''"
    "numberToString (Finite (4716158501352293 / 35184372088832)) = ''134.0412865531645''"
    "numberToString (Finite (884279719003555 / 35184372088832)) = ''25.132741228718345''"
    by (simp_all add: str_eval cong: let_weak_cong prod.case_cong_weak)
  show ?thesis
    by (simp only: general presets printed simp_thms)
qed

section \<open>Shape tags outside the four kinds\<close>

text \<open>
  C1 (as amended). For every shape descriptor whose tag is not one of cylinder, sphere,
  ellipsoid or box, \<open>computeVolumeMeters3\<close> and \<open>computeFloorArea\<close> both return zero;
  neither function has a failing branch.
\<close>

theorem unknown_kind_gives_zero:
  assumes "type d \<notin> {''cylinder'', ''sphere'', ''ellipsoid'', ''box''}"
  shows "computeVolumeMeters3 d = Finite 0 \<and> computeFloorArea d = Finite 0"
  using assms by (simp add: computeVolumeMeters3_def computeFloorArea_def)

text \<open>The amended statement at the tag \<open>dome\<close>.\<close>

theorem unknown_kind_gives_zero_witness:
  "type \<lparr>w = Finite 5, h = Finite 5, type = ''dome''\<rparr>
     \<notin> {''cylinder'', ''sphere'', ''ellipsoid'', ''box''}
   \<and> computeVolumeMeters3 \<lparr>w = Finite 5, h = Finite 5, type = ''dome''\<rparr> = Finite 0
   \<and> computeFloorArea \<lparr>w = Finite 5, h = Finite 5, type = ''dome''\<rparr> = Finite 0"
proof -
  have k: "type \<lparr>w = Finite 5, h = Finite 5, type = ''dome''\<rparr>
      \<notin> {''cylinder'', ''sphere'', ''ellipsoid'', ''box''}"
    by simp
  show ?thesis
    using k unknown_kind_gives_zero [OF k] by simp
qed

text \<open>
  The claim as first stated asks for an \<open>InvalidShapeKind\<close> failure instead of zero. At
  the tag \<open>torus\<close> both functions return zero.
\<close>

theorem torus_returns_zero_counterexample:
  "computeVolumeMeters3 \<lparr>w = Finite 6, h = Finite 8, type = ''torus''\<rparr> = Finite 0
   \<and> computeFloorArea \<lparr>w = Finite 6, h = Finite 8, type = ''torus''\<rparr> = Finite 0"
  by (simp add: computeVolumeMeters3_def computeFloorArea_def)

section \<open>One result for each rule entry\<close>

text \<open>
  C5. For every input the report has one entry for each entry of the rule table and one
  more. The entry at position \<open>i\<close> belongs to the rule at position \<open>i\<close>: when no zone has
  the name of the rule it is the failing result with the message \<open>Missing zone:\<close> and
  that name; when a zone has the name its message starts with the name and reports a zone
  of that name. The entry after them is the aggregate result, with one of its two
  messages, so a missing zone does not stop the evaluation.
\<close>

theorem one_result_per_rule:
  "length (evaluateZones c zs) = length rules + 1
   \<and> (\<forall>i < length rules.
         (fst (rules ! i) \<notin> name ` set zs \<longrightarrow>
            evaluateZones c zs ! i
              = \<lparr>ok = False, msg = ''Missing zone: '' @ fst (rules ! i)\<rparr>)
       \<and> (fst (rules ! i) \<in> name ` set zs \<longrightarrow>
            (\<exists>z \<in> set zs. name z = fst (rules ! i)
               \<and> msg (evaluateZones c zs ! i) =
                   fst (rules ! i) @ (if ok (evaluateZones c zs ! i) then '' OK: '' else '' TOO SMALL: '')
                     @ numberToString (area_m2 z)
                     @ (if ok (evaluateZones c zs ! i) then '' m^2 >= required ''
                        else '' m^2 < required '')
                     @ toFixed 1 (required_area c (snd (rules ! i))) @ '' m^2'')))
   \<and> msg (evaluateZones c zs ! length rules) =
       (if ok (evaluateZones c zs ! length rules)
        then ''Total zones '' @ toFixed 1 (totalZonesArea zs)
               @ '' m^2 within floor area '' @ toFixed 1 (floorArea c) @ '' m^2''
        else ''TOTAL AREA EXCEEDS USABLE FLOOR AREA: '' @ toFixed 1 (totalZonesArea zs)
               @ '' m^2 > floor '' @ toFixed 1 (floorArea c) @ '' m^2'')"
proof (intro conjI allI impI)
  show "length (evaluateZones c zs) = length rules + 1"
    by (rule length_evaluateZones)
next
  fix i
  assume i: "i < length rules" and "fst (rules ! i) \<notin> name ` set zs"
  then have "zoneMap zs (fst (rules ! i)) = None"
    by (simp add: zoneMap_None)
  then have "rule_result c (zoneMap zs) (rules ! i)
      = \<lparr>ok = False, msg = ''Missing zone: '' @ fst (rules ! i)\<rparr>"
    by (rule rule_result_missing)
  with i show "evaluateZones c zs ! i
      = \<lparr>ok = False, msg = ''Missing zone: '' @ fst (rules ! i)\<rparr>"
    by (simp add: evaluateZones_nth)
next
  fix i
  let ?k = "fst (rules ! i)" and ?v = "snd (rules ! i)"
  let ?r = "evaluateZones c zs ! i"
  assume i: "i < length rules" and "?k \<in> name ` set zs"
  then have ne: "filter (\<lambda>z. name z = ?k) zs \<noteq> []"
    by (auto simp: filter_empty_conv)
  define z where "z = last (filter (\<lambda>z. name z = ?k) zs)"
  from ne have "z \<in> set (filter (\<lambda>z. name z = ?k) zs)"
    unfolding z_def by (rule last_in_set)
  then have zin: "z \<in> set zs" and zk: "name z = ?k"
    by simp_all
  from ne have "zoneMap zs ?k = Some z"
    by (simp add: zoneMap_last z_def)
  then have "rule_result c (zoneMap zs) (rules ! i) = verdict ?k z (required_area c ?v)"
    by (rule rule_result_present)
  with i have "?r = verdict ?k z (required_area c ?v)"
    by (simp add: evaluateZones_nth)
  then have "msg ?r = ?k @ (if ok ?r then '' OK: '' else '' TOO SMALL: '')
                     @ numberToString (area_m2 z)
                     @ (if ok ?r then '' m^2 >= required '' else '' m^2 < required '')
                     @ toFixed 1 (required_area c ?v) @ '' m^2''"
    by (simp add: verdict_def)
  with zin zk show "\<exists>z \<in> set zs. name z = ?k
               \<and> msg ?r = ?k @ (if ok ?r then '' OK: '' else '' TOO SMALL: '')
                     @ numberToString (area_m2 z)
                     @ (if ok ?r then '' m^2 >= required '' else '' m^2 < required '')
                     @ toFixed 1 (required_area c ?v) @ '' m^2''"
    by blast
next
  show "msg (evaluateZones c zs ! length rules) =
       (if ok (evaluateZones c zs ! length rules)
        then ''Total zones '' @ toFixed 1 (totalZonesArea zs)
               @ '' m^2 within floor area '' @ toFixed 1 (floorArea c) @ '' m^2''
        else ''TOTAL AREA EXCEEDS USABLE FLOOR AREA: '' @ toFixed 1 (totalZonesArea zs)
               @ '' m^2 > floor '' @ toFixed 1 (floorArea c) @ '' m^2'')"
    by (simp add: evaluateZones_shape nth_append)
qed

text \<open>The statement at the fourth rule, \<open>Hygiene\<close>, which no initial zone matches.\<close>

theorem one_result_per_rule_witness:
  "3 < length rules
   \<and> fst (rules ! 3) \<notin> name ` set initial_zones
   \<and> length (evaluateZones box_habitat initial_zones) = 7
   \<and> evaluateZones box_habitat initial_zones ! 3
       = \<lparr>ok = False, msg = ''Missing zone: Hygiene''\<rparr>"
proof -
  have h1: "3 < length rules"
    by (simp add: rules_def)
  have h2: "fst (rules ! 3) \<notin> name ` set initial_zones"
    by (simp add: rules_def initial_zones_def)
  have k: "fst (rules ! 3) = ''Hygiene''"
    by (simp add: rules_def)
  from one_result_per_rule [of box_habitat initial_zones] h1 h2
  have "length (evaluateZones box_habitat initial_zones) = length rules + 1"
    and "evaluateZones box_habitat initial_zones ! 3
          = \<lparr>ok = False, msg = ''Missing zone: '' @ fst (rules ! 3)\<rparr>"
    by blast+
  with h1 h2 show ?thesis
    by (simp add: k length_rules)
qed

section \<open>The report always has seven entries\<close>

text \<open>
  C10. For every zone list, the empty one included, and every crew, mission length and
  floor area, NaN and the infinities among them, the evaluation returns a report (the
  function has no failing branch) of as many entries as the rule table has, plus one:
  seven for the table of six.
\<close>

theorem report_always_seven:
  "length (evaluateZones c zs) = length rules + 1
   \<and> length rules = 6
   \<and> length (evaluateZones c []) = 7"
  by (simp add: length_evaluateZones length_rules)

section \<open>The aggregate result\<close>

text \<open>
  C4 (as amended). For every zone list the report is not empty and its last entry, at the
  position after the rule entries, is the aggregate result. Its total is the running sum
  of the areas of all zones of the list, matched by a rule or not, taken from zero in the
  order of the list with every addition rounded to a double, an area that is zero or NaN
  counting as zero. The entry fails exactly when this total strictly exceeds the floor
  area, so equal doubles pass. When the areas are whole numbers with a sum below \<open>2^53\<close>
  the total is their exact sum.
\<close>

theorem aggregate_is_last:
  "evaluateZones c zs \<noteq> []
   \<and> last (evaluateZones c zs) = evaluateZones c zs ! length rules
   \<and> last (evaluateZones c zs) =
       (let total = totalZonesArea zs in
        if flt (floorArea c) total
        then \<lparr>ok = False,
             msg = ''TOTAL AREA EXCEEDS USABLE FLOOR AREA: '' @ toFixed 1 total
                   @ '' m^2 > floor '' @ toFixed 1 (floorArea c) @ '' m^2''\<rparr>
        else \<lparr>ok = True,
             msg = ''Total zones '' @ toFixed 1 total
                   @ '' m^2 within floor area '' @ toFixed 1 (floorArea c) @ '' m^2''\<rparr>)
   \<and> (ok (last (evaluateZones c zs)) \<longleftrightarrow> \<not> flt (floorArea c) (totalZonesArea zs))
   \<and> totalZonesArea [] = Finite 0
   \<and> totalZonesArea (zs @ [z]) =
       fadd (totalZonesArea zs) (if truthy (area_m2 z) then area_m2 z else Finite 0)
   \<and> (map area_m2 zs = map (\<lambda>n. Finite (real n)) ns \<and> sum_list ns < 2 ^ 53 \<longrightarrow>
        totalZonesArea zs = Finite (real (sum_list ns)))"
proof -
  have "map area_m2 zs = map (\<lambda>n. Finite (real n)) ns \<and> sum_list ns < 2 ^ 53 \<longrightarrow>
        totalZonesArea zs = Finite (real (sum_list ns))"
    using totalZonesArea_whole by blast
  then show ?thesis
    by (simp add: evaluateZones_shape Let_def nth_append totalZonesArea_Nil
        totalZonesArea_snoc)
qed

text \<open>The amended statement for the initial zones, whose areas 6, 8 and 4 sum to 18.\<close>

theorem aggregate_is_last_witness:
  "map area_m2 initial_zones = map (\<lambda>n. Finite (real n)) [6, 8, 4]
   \<and> sum_list [6, 8, 4 :: nat] < 2 ^ 53
   \<and> totalZonesArea initial_zones = Finite 18
   \<and> last (evaluateZones box_habitat initial_zones)
       = \<lparr>ok = True, msg = ''Total zones 18.0 m^2 within floor area 24.0 m^2''\<rparr>"
proof -
  have h1: "map area_m2 initial_zones = map (\<lambda>n. Finite (real n)) [6, 8, 4]"
    by (simp add: initial_zones_def)
  have h2: "sum_list [6, 8, 4 :: nat] < 2 ^ 53"
    by simp
  note inst = aggregate_is_last [of box_habitat initial_zones _ "[6, 8, 4]"]
  from inst h1 h2 have t: "totalZonesArea initial_zones = Finite (real (sum_list [6, 8, 4]))"
    by blast
  then have t18: "totalZonesArea initial_zones = Finite 18"
    by simp
  from inst have "last (evaluateZones box_habitat initial_zones) =
       (let total = totalZonesArea initial_zones in
        if flt (floorArea box_habitat) total
        then \<lparr>ok = False,
             msg = ''TOTAL AREA EXCEEDS USABLE FLOOR AREA: '' @ toFixed 1 total
                   @ '' m^2 > floor '' @ toFixed 1 (floorArea box_habitat) @ '' m^2''\<rparr>
        else \<lparr>ok = True,
             msg = ''Total zones '' @ toFixed 1 total
                   @ '' m^2 within floor area '' @ toFixed 1 (floorArea box_habitat) @ '' m^2''\<rparr>)"
    by blast
  then have "last (evaluateZones box_habitat initial_zones)
       = \<lparr>ok = True, msg = ''Total zones 18.0 m^2 within floor area 24.0 m^2''\<rparr>"
    by (simp add: t18 floorArea_box toFixed_examples_Suc)
  with h1 h2 t18 show ?thesis
    by blast
qed

text \<open>
  The claim as first stated takes the total as the sum of the areas and lets a total
  equal to the floor area pass. The zones of areas 23.8, 0.1 and 0.1 on the floor of 24 of
  the box fail when the large zone comes first and pass when it comes last: the same
  zones, so the same sum, give both results.
\<close>

theorem order_of_zones_counterexample:
  "last (evaluateZones box_habitat large_first)
     = \<lparr>ok = False,
        msg = ''TOTAL AREA EXCEEDS USABLE FLOOR AREA: 24.0 m^2 > floor 24.0 m^2''\<rparr>
   \<and> last (evaluateZones box_habitat large_last)
     = \<lparr>ok = True, msg = ''Total zones 24.0 m^2 within floor area 24.0 m^2''\<rparr>
   \<and> large_last = rotate1 large_first
   \<and> floorArea box_habitat = Finite 24"
  by (simp add: evaluateZones_shape sum_large_first sum_large_last floorArea_box
      toFixed_24_up toFixed_24_up [unfolded One_nat_def] toFixed_examples_Suc)
     (simp add: large_first_def large_last_def)

section \<open>Zones that share a name\<close>

text \<open>
  C6. For every zone list, the lookup resolves a name to the zone that carries it last
  in the sequence: if no zone after \<open>z\<close> has the name of \<open>z\<close>, the lookup of that name is
  \<open>z\<close>, whatever zones of the same name come before it, and the result of the rule of
  that name is the one that the list of \<open>z\<close> alone would give.
\<close>

theorem last_zone_wins:
  assumes "zs = xs @ z # ys" and "\<forall>y \<in> set ys. name y \<noteq> name z"
  shows "zoneMap zs (name z) = Some z
         \<and> (\<forall>i < length rules. fst (rules ! i) = name z \<longrightarrow>
               evaluateZones c zs ! i = evaluateZones c [z] ! i)"
proof -
  from assms(2) have "filter (\<lambda>y. name y = name z) ys = []"
    by (simp add: filter_empty_conv)
  with assms(1) have "filter (\<lambda>y. name y = name z) zs = filter (\<lambda>y. name y = name z) xs @ [z]"
    by simp
  then have look: "zoneMap zs (name z) = Some z"
    by (simp add: zoneMap_last)
  have one: "zoneMap [z] (name z) = Some z"
    by (simp add: zoneMap_last)
  have "evaluateZones c zs ! i = evaluateZones c [z] ! i"
    if "i < length rules" and "fst (rules ! i) = name z" for i
  proof -
    have "rule_result c (zoneMap zs) (name z, snd (rules ! i))
        = rule_result c (zoneMap [z]) (name z, snd (rules ! i))"
      by (rule rule_result_cong) (simp only: look one)
    moreover have "rules ! i = (name z, snd (rules ! i))"
      using that(2) by (metis prod.collapse)
    ultimately show ?thesis
      using that(1) by (simp add: evaluateZones_nth)
  qed
  with look show ?thesis
    by blast
qed

text \<open>
  The statement for two zones named \<open>Sleep\<close> followed by another zone: the second one
  is looked up, and its area of 20 passes the check that the first would fail.
\<close>

theorem last_zone_wins_witness:
  "[\<lparr>zone_id = Finite 1, name = ''Sleep'', area_m2 = Finite 6\<rparr>,
    \<lparr>zone_id = Finite 2, name = ''Sleep'', area_m2 = Finite 20\<rparr>,
    \<lparr>zone_id = Finite 3, name = ''ECLSS'', area_m2 = Finite 4\<rparr>]
     = [\<lparr>zone_id = Finite 1, name = ''Sleep'', area_m2 = Finite 6\<rparr>]
         @ \<lparr>zone_id = Finite 2, name = ''Sleep'', area_m2 = Finite 20\<rparr>
         # [\<lparr>zone_id = Finite 3, name = ''ECLSS'', area_m2 = Finite 4\<rparr>]
   \<and> name \<lparr>zone_id = Finite 3, name = ''ECLSS'', area_m2 = Finite 4\<rparr>
       \<noteq> name \<lparr>zone_id = Finite 2, name = ''Sleep'', area_m2 = Finite 20\<rparr>
   \<and> zoneMap [\<lparr>zone_id = Finite 1, name = ''Sleep'', area_m2 = Finite 6\<rparr>,
               \<lparr>zone_id = Finite 2, name = ''Sleep'', area_m2 = Finite 20\<rparr>,
               \<lparr>zone_id = Finite 3, name = ''ECLSS'', area_m2 = Finite 4\<rparr>] ''Sleep''
       = Some \<lparr>zone_id = Finite 2, name = ''Sleep'', area_m2 = Finite 20\<rparr>
   \<and> evaluateZones box_habitat
         [\<lparr>zone_id = Finite 1, name = ''Sleep'', area_m2 = Finite 6\<rparr>,
          \<lparr>zone_id = Finite 2, name = ''Sleep'', area_m2 = Finite 20\<rparr>,
          \<lparr>zone_id = Finite 3, name = ''ECLSS'', area_m2 = Finite 4\<rparr>] ! 0
       = \<lparr>ok = True, msg = ''Sleep OK: 20 m^2 >= required 16.0 m^2''\<rparr>"
proof -
  let ?a = "\<lparr>zone_id = Finite 1, name = ''Sleep'', area_m2 = Finite 6\<rparr>"
  let ?b = "\<lparr>zone_id = Finite 2, name = ''Sleep'', area_m2 = Finite 20\<rparr>"
  let ?e = "\<lparr>zone_id = Finite 3, name = ''ECLSS'', area_m2 = Finite 4\<rparr>"
  have h1: "[?a, ?b, ?e] = [?a] @ ?b # [?e]"
    by simp
  have h2: "\<forall>y \<in> set [?e]. name y \<noteq> name ?b"
    by simp
  have i0: "0 < length rules" "fst (rules ! 0) = name ?b"
    by (simp_all add: rules_def)
  have single: "evaluateZones box_habitat [?b] ! 0
      = \<lparr>ok = True, msg = ''Sleep OK: 20 m^2 >= required 16.0 m^2''\<rparr>"
    by (simp add: evaluateZones_nth length_rules rules_def zoneMap_def rule_result_def
        rule_step_def required_area_def box_habitat_def truthy_def fl_small
        toFixed_examples_Suc numberToString_examples)
  from last_zone_wins [OF h1 h2, of box_habitat] i0
  have "zoneMap [?a, ?b, ?e] (name ?b) = Some ?b"
    and "evaluateZones box_habitat [?a, ?b, ?e] ! 0
          = evaluateZones box_habitat [?b] ! 0"
    by blast+
  with h1 h2 single show ?thesis
    by simp
qed

section \<open>The result of a rule entry whose zone is present\<close>




section \<open>Crew and mission length that are not positive\<close>

text \<open>
  C2 (as amended). For every call where the crew size or the mission length is zero or
  negative, the evaluation does not fail: it returns the report of seven entries, where
  the entry of each rule is the missing-zone result or the result of its zone against the
  required area that the form of the rule gives for those figures. With a crew that is
  not positive a per-crew requirement is not positive; with a mission length that is not
  positive the per-30-day requirement is the one of a single day.
\<close>

theorem nonpositive_context_still_reports:
  assumes "fle (crew c) (Finite 0) \<or> fle (missionDays c) (Finite 0)"
  shows "length (evaluateZones c zs) = 7
    \<and> (\<forall>i < length rules. \<exists>f. form_of (snd (rules ! i)) = Some f
          \<and> evaluateZones c zs ! i =
              (case zoneMap zs (fst (rules ! i)) of
                 None \<Rightarrow> \<lparr>ok = False, msg = ''Missing zone: '' @ fst (rules ! i)\<rparr>
               | Some z \<Rightarrow>
                   verdict (fst (rules ! i)) z (required_by_form (crew c) (missionDays c) f)))
    \<and> (fle (crew c) (Finite 0) \<longrightarrow>
          (\<forall>rate. 0 < rate \<longrightarrow>
             fle (required_by_form (crew c) (missionDays c) (perCrew (Finite rate))) (Finite 0)))
    \<and> (fle (missionDays c) (Finite 0) \<longrightarrow>
          (\<forall>rate. required_by_form (crew c) (missionDays c) (perCrewPer30Days rate)
             = fmul (fmul rate (crew c)) (fdiv (Finite 1) (Finite 30))))"
proof (intro conjI allI impI)
  show "length (evaluateZones c zs) = 7"
    by (simp add: length_evaluateZones length_rules)
next
  fix i
  assume i: "i < length rules"
  let ?k = "fst (rules ! i)" and ?v = "snd (rules ! i)"
  from i have "rules ! i \<in> set rules"
    by (rule nth_mem)
  from required_area_rules [OF this, of c]
  obtain f where f: "form_of ?v = Some f"
    and req: "required_area c ?v = required_by_form (crew c) (missionDays c) f"
    by auto
  have "evaluateZones c zs ! i = rule_result c (zoneMap zs) (rules ! i)"
    using i by (rule evaluateZones_nth)
  also have "\<dots> = (case zoneMap zs ?k of
                 None \<Rightarrow> \<lparr>ok = False, msg = ''Missing zone: '' @ ?k\<rparr>
               | Some z \<Rightarrow> verdict ?k z (required_by_form (crew c) (missionDays c) f))"
    by (cases "zoneMap zs ?k") (simp_all add: rule_result_missing rule_result_present req)
  finally show "\<exists>f. form_of ?v = Some f
          \<and> evaluateZones c zs ! i =
              (case zoneMap zs ?k of
                 None \<Rightarrow> \<lparr>ok = False, msg = ''Missing zone: '' @ ?k\<rparr>
               | Some z \<Rightarrow> verdict ?k z (required_by_form (crew c) (missionDays c) f))"
    using f by blast
next
  fix rate :: real
  assume "fle (crew c) (Finite 0)" and "0 < rate"
  then show "fle (required_by_form (crew c) (missionDays c) (perCrew (Finite rate))) (Finite 0)"
    by (simp add: fmul_rate_nonpos)
next
  fix rate
  assume "fle (missionDays c) (Finite 0)"
  then show "required_by_form (crew c) (missionDays c) (perCrewPer30Days rate)
      = fmul (fmul rate (crew c)) (fdiv (Finite 1) (Finite 30))"
    by (simp add: fmax_one_nonpos)
qed

text \<open>The amended statement at a crew of zero.\<close>

theorem nonpositive_context_still_reports_witness:
  "(fle (crew (box_habitat\<lparr>crew := Finite 0\<rparr>)) (Finite 0)
      \<or> fle (missionDays (box_habitat\<lparr>crew := Finite 0\<rparr>)) (Finite 0))
   \<and> length (evaluateZones (box_habitat\<lparr>crew := Finite 0\<rparr>) initial_zones) = 7
   \<and> evaluateZones (box_habitat\<lparr>crew := Finite 0\<rparr>) initial_zones ! 0
       = \<lparr>ok = True, msg = ''Sleep OK: 6 m^2 >= required 0.0 m^2''\<rparr>
   \<and> fle (required_by_form (Finite 0) (Finite 180) (perCrew (Finite 4))) (Finite 0)"
proof -
  let ?c = "box_habitat\<lparr>crew := Finite 0\<rparr>"
  let ?z = "\<lparr>zone_id = Finite 1, name = ''Sleep'', area_m2 = Finite 6\<rparr>"
  have h: "fle (crew ?c) (Finite 0) \<or> fle (missionDays ?c) (Finite 0)"
    by (simp add: fle_def)
  have hc: "fle (crew ?c) (Finite 0)"
    by (simp add: fle_def)
  have i0: "0 < length rules"
    by (simp add: rules_def)
  have k: "fst (rules ! 0) = ''Sleep''" and f: "form_of (snd (rules ! 0)) = Some (perCrew (Finite 4))"
    by (simp_all add: rules_def form_of_def)
  have z: "zoneMap initial_zones ''Sleep'' = Some ?z"
    by (simp add: zoneMap_initial)
  have cm: "crew ?c = Finite 0" "missionDays ?c = Finite 180"
    by (simp_all add: box_habitat_def)
  note inst = nonpositive_context_still_reports [OF h, of initial_zones]
  from inst have len: "length (evaluateZones ?c initial_zones) = 7"
    by blast
  from inst i0 obtain g where "form_of (snd (rules ! 0)) = Some g"
    and "evaluateZones ?c initial_zones ! 0 =
      (case zoneMap initial_zones (fst (rules ! 0)) of
         None \<Rightarrow> \<lparr>ok = False, msg = ''Missing zone: '' @ fst (rules ! 0)\<rparr>
       | Some z \<Rightarrow> verdict (fst (rules ! 0)) z (required_by_form (crew ?c) (missionDays ?c) g))"
    by blast
  with f k z cm have "evaluateZones ?c initial_zones ! 0
      = verdict ''Sleep'' ?z (required_by_form (Finite 0) (Finite 180) (perCrew (Finite 4)))"
    by simp
  then have e0: "evaluateZones ?c initial_zones ! 0
      = \<lparr>ok = True, msg = ''Sleep OK: 6 m^2 >= required 0.0 m^2''\<rparr>"
    by (simp add: verdict_def fl_small toFixed_examples_Suc numberToString_examples)
  from inst hc cm have "fle (required_by_form (Finite 0) (Finite 180) (perCrew (Finite 4))) (Finite 0)"
    by (metis zero_less_numeral)
  with h len e0 show ?thesis
    by blast
qed

text \<open>
  The claim as first stated asks for an \<open>InvalidMissionContext\<close> failure. With a crew
  of zero the evaluation returns a full report, whose first entry passes against a
  required area of zero.
\<close>

theorem zero_crew_report_counterexample:
  "evaluateZones (box_habitat\<lparr>crew := Finite 0\<rparr>) initial_zones =
     [\<lparr>ok = True, msg = ''Sleep OK: 6 m^2 >= required 0.0 m^2''\<rparr>,
      \<lparr>ok = False, msg = ''Missing zone: Recreation''\<rparr>,
      \<lparr>ok = False, msg = ''Missing zone: Exercise''\<rparr>,
      \<lparr>ok = False, msg = ''Missing zone: Hygiene''\<rparr>,
      \<lparr>ok = True, msg = ''ECLSS OK: 4 m^2 >= required 4.0 m^2''\<rparr>,
      \<lparr>ok = False, msg = ''Missing zone: Stowage''\<rparr>,
      \<lparr>ok = True, msg = ''Total zones 18.0 m^2 within floor area 24.0 m^2''\<rparr>]"
proof -
  have fa: "floorArea (box_habitat\<lparr>crew := Finite 0\<rparr>) = Finite 24"
    by (simp add: floorArea_def computeFloorArea_def example_defs fl_small)
  show ?thesis
    by (simp add: evaluateZones_shape fa totalZonesArea_initial rules_def zoneMap_initial
        rule_result_def rule_step_def required_area_def truthy_def fl_small
        toFixed_examples_Suc numberToString_examples)
qed

section \<open>The outputs are functions of their inputs\<close>

text \<open>
  C9. The report is determined by the zone list, the crew, the mission length and the
  floor area; the volume and the floor area are determined by the shape descriptor. Two
  states of the component that agree on these give equal reports, message strings
  included, and equal geometry, whatever else differs between them; in particular the
  memoised evaluation is determined by the values in its dependency list.
\<close>

theorem outputs_depend_on_inputs_only:
  "(crew c1 = crew c2 \<and> missionDays c1 = missionDays c2 \<and> floorArea c1 = floorArea c2
      \<longrightarrow> evaluateZones c1 zs = evaluateZones c2 zs)
   \<and> (dimensions c1 = dimensions c2 \<longrightarrow> volume c1 = volume c2 \<and> floorArea c1 = floorArea c2)
   \<and> (zones c1 = zones c2 \<and> crew c1 = crew c2 \<and> missionDays c1 = missionDays c2
        \<and> dimensions c1 = dimensions c2
      \<longrightarrow> evaluation c1 = evaluation c2)"
proof -
  have ev: "evaluateZones c1 ys = evaluateZones c2 ys"
    if "crew c1 = crew c2" and "missionDays c1 = missionDays c2"
      and "floorArea c1 = floorArea c2" for ys
  proof -
    have "required_area c1 v = required_area c2 v" for v
      unfolding required_area_def that(1) that(2) by (rule refl)
    then have ra: "required_area c1 = required_area c2"
      by (intro ext)
    have "rule_step c1 zm rep kv = rule_step c2 zm rep kv" for zm rep kv
      unfolding rule_step_def ra by (rule refl)
    then have rs: "rule_step c1 = rule_step c2"
      by (intro ext)
    show ?thesis
      unfolding evaluateZones_def rs that(3) by (rule refl)
  qed
  have geo: "volume c1 = volume c2 \<and> floorArea c1 = floorArea c2"
    if "dimensions c1 = dimensions c2"
    using that by (simp add: volume_def floorArea_def)
  from ev geo show ?thesis
    by (simp add: evaluation_def)
qed

text \<open>The statement for two states that differ in the name of the shape only.\<close>

theorem outputs_depend_on_inputs_only_witness:
  "crew box_habitat = crew (box_habitat\<lparr>shapeName := ''Module A''\<rparr>)
   \<and> missionDays box_habitat = missionDays (box_habitat\<lparr>shapeName := ''Module A''\<rparr>)
   \<and> dimensions box_habitat = dimensions (box_habitat\<lparr>shapeName := ''Module A''\<rparr>)
   \<and> zones box_habitat = zones (box_habitat\<lparr>shapeName := ''Module A''\<rparr>)
   \<and> box_habitat \<noteq> box_habitat\<lparr>shapeName := ''Module A''\<rparr>
   \<and> evaluation box_habitat = evaluation (box_habitat\<lparr>shapeName := ''Module A''\<rparr>)
   \<and> volume box_habitat = volume (box_habitat\<lparr>shapeName := ''Module A''\<rparr>)
   \<and> floorArea box_habitat = floorArea (box_habitat\<lparr>shapeName := ''Module A''\<rparr>)"
proof -
  let ?c = "box_habitat\<lparr>shapeName := ''Module A''\<rparr>"
  have h: "crew box_habitat = crew ?c" "missionDays box_habitat = missionDays ?c"
    "dimensions box_habitat = dimensions ?c" "zones box_habitat = zones ?c"
    by simp_all
  have d: "box_habitat \<noteq> ?c"
    by (simp add: box_habitat_def)
  from outputs_depend_on_inputs_only [of box_habitat ?c initial_zones] h
  have "evaluation box_habitat = evaluation ?c"
    and "volume box_habitat = volume ?c" and "floorArea box_habitat = floorArea ?c"
    by blast+
  with h d show ?thesis
    by blast
qed

end
